theory Spec2Isabelle
  imports Main
begin

section \<open>Python values and built-ins used by travel\_planner.py\<close>

text \<open>
  The script \<^verbatim>\<open>Multi-Agents/travel_planner.py\<close> is a read-and-print loop around an agent
  framework. Strings are modelled as \<^typ>\<open>string\<close>; exceptions are values of the
  datatype \<^verbatim>\<open>py_error\<close>. Case folding is modelled on the letters A to Z, which is how
  \<^verbatim>\<open>str.lower\<close> acts on ASCII text; no text with a character outside ASCII lower-cases to
  \<^verbatim>\<open>yes\<close> or to \<^verbatim>\<open>exit\<close>, the only words the script compares with.
\<close>

datatype py_error = EOFError | IndexError | TypeError | ValueError | AgentChatException

definition ascii_uppercase :: string where
  "ascii_uppercase = ''ABCDEFGHIJKLMNOPQRSTUVWXYZ''"

definition ascii_lowercase :: string where
  "ascii_lowercase = ''abcdefghijklmnopqrstuvwxyz''"

definition lower_char :: "char \<Rightarrow> char" where
  "lower_char c = (case map_of (zip ascii_uppercase ascii_lowercase) c of None \<Rightarrow> c | Some d \<Rightarrow> d)"

definition py_lower :: "string \<Rightarrow> string" where
  "py_lower s = map lower_char s"

text \<open>\<^verbatim>\<open>str.strip()\<close> on ASCII text: blank, tab, line feed, vertical tab, form feed,
  carriage return. The script never calls it; it is here for the wording of the specification.\<close>

definition is_space :: "char \<Rightarrow> bool" where
  "is_space c = (c \<in> set [CHR '' '', CHR 0x09, CHR 0x0A, CHR 0x0B, CHR 0x0C, CHR 0x0D])"

definition py_strip :: "string \<Rightarrow> string" where
  "py_strip s = rev (dropWhile is_space (rev (dropWhile is_space s)))"

text \<open>\<^verbatim>\<open>x or d\<close> for an optional string: \<^verbatim>\<open>None\<close> and the empty string are both falsy.\<close>

definition py_or :: "string option \<Rightarrow> string \<Rightarrow> string" where
  "py_or x d = (case x of None \<Rightarrow> d | Some s \<Rightarrow> if s = [] then d else s)"

definition str_bool :: "bool \<Rightarrow> string" where
  "str_bool b = (if b then ''True'' else ''False'')"

definition NL :: string where
  "NL = [CHR 0x0A]"

definition QUOTE :: string where
  "QUOTE = [CHR 0x27]"

section \<open>Framework data, as the script constructs it\<close>

datatype author_role = SYSTEM | USER | ASSISTANT | TOOL

record chat_message_content =
  role :: author_role
  name :: "string option"
  content :: string

text \<open>\<^verbatim>\<open>str(message)\<close> is the text of the message.\<close>

definition py_str :: "chat_message_content \<Rightarrow> string" where
  "py_str m = content m"

text \<open>The result of a prompt function: \<^verbatim>\<open>result.value\<close> is a list of messages, or \<^verbatim>\<open>None\<close>.\<close>

datatype function_result = FunctionResult (result_value: "chat_message_content list option")

text \<open>Line 20 of the script names the available services. Only the Azure connector is
  imported (line 8); the other two connectors stand for what a kernel could hold instead.\<close>

datatype Service = OpenAI | AzureOpenAI | HuggingFace

datatype ai_service =
    AzureChatCompletion string
  | OpenAIChatCompletion string
  | HuggingFaceTextCompletion string

datatype kernel = Kernel (services: "ai_service list")

definition add_service :: "kernel \<Rightarrow> ai_service \<Rightarrow> kernel" where
  "add_service k s = Kernel (services k @ [s])"

record chat_completion_agent =
  service_id :: string
  agent_kernel :: kernel
  agent_name :: string
  instructions :: string

record kernel_function_from_prompt =
  function_name :: string
  prompt :: string

record kernel_function_termination_strategy =
  ts_agents :: "chat_completion_agent list"
  ts_function :: kernel_function_from_prompt
  ts_kernel :: kernel
  ts_result_parser :: "function_result \<Rightarrow> py_error + bool"
  ts_history_variable_name :: string
  maximum_iterations :: nat

record kernel_function_selection_strategy =
  ss_function :: kernel_function_from_prompt
  ss_kernel :: kernel
  ss_result_parser :: "function_result \<Rightarrow> string"
  agent_variable_name :: string
  ss_history_variable_name :: string

record agent_group_chat =
  agents :: "chat_completion_agent list"
  termination_strategy :: kernel_function_termination_strategy
  selection_strategy :: kernel_function_selection_strategy
  history :: "chat_message_content list"
  is_complete :: bool

section \<open>Module level: settings and persona constants (lines 18 to 50)\<close>

record service_settings =
  global_llm_service :: "string option"

text \<open>\<^verbatim>\<open>selectedService\<close> (lines 21 to 25). The enumeration \<^verbatim>\<open>Service\<close> lives in
  \<^verbatim>\<open>services.py\<close>, so the lookup of a member by its value is a parameter; a string that is
  no member's value raises \<^verbatim>\<open>ValueError\<close>.\<close>

definition selectedService ::
  "(string \<Rightarrow> Service option) \<Rightarrow> service_settings \<Rightarrow> py_error + Service" where
  "selectedService service_of_value settings =
     (case global_llm_service settings of
        None \<Rightarrow> Inr AzureOpenAI
      | Some s \<Rightarrow> (case service_of_value (py_lower s) of
                    None \<Rightarrow> Inl ValueError
                  | Some v \<Rightarrow> Inr v))"

definition CONCIERGE_NAME :: string where
  "CONCIERGE_NAME = ''Concierge''"

definition CONCIERGE_INSTRUCTIONS :: string where
  "CONCIERGE_INSTRUCTIONS =
     NL @ ''You are a concierge for a travel agency specializing in hiking trips in Kyrgyzstan.''
     @ NL @ ''Your goal is to assist users in planning their hiking trips by coordinating with experts in route planning and local traditions.''
     @ NL @ ''Your role is to facilitate the conversation and ensure all participants contribute to the travel plan.''
     @ NL @ ''Whenever the user greets or thank you, feel free to answer without invoking other agents.''
     @ NL"

definition KYRGYZSTAN_ROUTE_EXPERT_NAME :: string where
  "KYRGYZSTAN_ROUTE_EXPERT_NAME = ''KyrgyzstanRouteExpert''"

definition KYRGYZSTAN_ROUTE_EXPERT_INSTRUCTIONS :: string where
  "KYRGYZSTAN_ROUTE_EXPERT_INSTRUCTIONS =
     NL @ ''You are an expert in hiking routes in Kyrgyzstan.''
     @ NL @ ''Your goal is to provide detailed information on the best hiking routes in Kyrgyzstan.''
     @ NL @ ''Highlight the difficulty levels, scenic spots, and any important landmarks.''
     @ NL"

definition LOCAL_TRADITIONS_EXPERT_NAME :: string where
  "LOCAL_TRADITIONS_EXPERT_NAME = ''LocalTraditionsExpert''"

definition LOCAL_TRADITIONS_EXPERT_INSTRUCTIONS :: string where
  "LOCAL_TRADITIONS_EXPERT_INSTRUCTIONS =
     NL @ ''You are an expert in the local traditions and culture of Kyrgyzstan.''
     @ NL @ ''Your goal is to provide insights on local customs and traditions that hikers should be aware of.''
     @ NL @ ''Emphasize respectful behavior, cultural norms, and any important local practices.''
     @ NL"

text \<open>\<^verbatim>\<open>_create_kernel_with_chat_completion\<close> (lines 52 to 57). The module global
  \<^verbatim>\<open>selectedService\<close> is in scope of the function, so it is its first argument here.\<close>

definition create_kernel_with_chat_completion :: "Service \<Rightarrow> string \<Rightarrow> kernel" where
  "create_kernel_with_chat_completion selected sid =
     add_service (Kernel []) (AzureChatCompletion sid)"

section \<open>The objects built at the top of every pass of the loop (lines 61 to 136)\<close>

definition agent_concierge :: "Service \<Rightarrow> chat_completion_agent" where
  "agent_concierge selected =
     \<lparr>service_id = ''concierge'',
      agent_kernel = create_kernel_with_chat_completion selected ''concierge'',
      agent_name = CONCIERGE_NAME,
      instructions = CONCIERGE_INSTRUCTIONS\<rparr>"

definition agent_kyrgyzstan_route_expert :: "Service \<Rightarrow> chat_completion_agent" where
  "agent_kyrgyzstan_route_expert selected =
     \<lparr>service_id = ''kyrgyzstan_route_expert'',
      agent_kernel = create_kernel_with_chat_completion selected ''kyrgyzstan_route_expert'',
      agent_name = KYRGYZSTAN_ROUTE_EXPERT_NAME,
      instructions = KYRGYZSTAN_ROUTE_EXPERT_INSTRUCTIONS\<rparr>"

definition agent_local_traditions_expert :: "Service \<Rightarrow> chat_completion_agent" where
  "agent_local_traditions_expert selected =
     \<lparr>service_id = ''local_traditions_expert'',
      agent_kernel = create_kernel_with_chat_completion selected ''local_traditions_expert'',
      agent_name = LOCAL_TRADITIONS_EXPERT_NAME,
      instructions = LOCAL_TRADITIONS_EXPERT_INSTRUCTIONS\<rparr>"

definition termination_function :: kernel_function_from_prompt where
  "termination_function =
     \<lparr>function_name = ''termination'',
      prompt =
        NL @ ''Determine if the travel plan has been agreed upon by all participants. If so, respond with a single word: yes''
        @ NL
        @ NL @ ''History:''
        @ NL @ ''{{$history}}''
        @ NL\<rparr>"

definition selection_function :: kernel_function_from_prompt where
  "selection_function =
     \<lparr>function_name = ''selection'',
      prompt =
        NL @ ''Determine which participant takes the next turn in a conversation based on the most recent participant.''
        @ NL @ ''State only the name of the participant to take the next turn.''
        @ NL @ ''No participant should take more than one turn in a row.''
        @ NL
        @ NL @ ''Always follow these rules when selecting the next participant:''
        @ NL @ ''- After user input, it is '' @ CONCIERGE_NAME @ QUOTE @ ''s turn.''
        @ NL @ ''- '' @ CONCIERGE_NAME @ '' will then decide whether to invoke ''
             @ KYRGYZSTAN_ROUTE_EXPERT_NAME @ '' and '' @ LOCAL_TRADITIONS_EXPERT_NAME @ ''.''
        @ NL @ ''- Participants take turns sharing their perspectives.''
        @ NL @ ''- Ensure all participants have an opportunity to contribute.''
        @ NL @ ''- The conversation cycles through participants if necessary.''
        @ NL
        @ NL @ ''History:''
        @ NL @ ''{{$history}}''
        @ NL\<rparr>"

text \<open>Line 125: \<^verbatim>\<open>lambda result: str(result.value[0]).lower() == "yes"\<close>. Subscripting
  \<^verbatim>\<open>None\<close> raises \<^verbatim>\<open>TypeError\<close>, subscripting an empty list raises \<^verbatim>\<open>IndexError\<close>.\<close>

definition termination_result_parser :: "function_result \<Rightarrow> py_error + bool" where
  "termination_result_parser result =
     (case result_value result of
        None \<Rightarrow> Inl TypeError
      | Some [] \<Rightarrow> Inl IndexError
      | Some (m # ms) \<Rightarrow> Inr (py_lower (py_str m) = ''yes''))"

text \<open>Line 132:
  \<^verbatim>\<open>lambda result: str(result.value[0]) if result.value else CONCIERGE_NAME\<close>.
  \<^verbatim>\<open>None\<close> and the empty list are falsy.\<close>

definition selection_result_parser :: "function_result \<Rightarrow> string" where
  "selection_result_parser result =
     (case result_value result of
        None \<Rightarrow> CONCIERGE_NAME
      | Some [] \<Rightarrow> CONCIERGE_NAME
      | Some (m # ms) \<Rightarrow> py_str m)"

text \<open>Modelled from the spec: the constructor \<^verbatim>\<open>AgentGroupChat\<close> belongs to the agent
  framework, which is not under src/. The script passes it no history; the conversation
  history of the specification's data model starts as the empty sequence, and the chat is
  not complete.\<close>

definition AgentGroupChat ::
  "chat_completion_agent list \<Rightarrow> kernel_function_termination_strategy \<Rightarrow>
   kernel_function_selection_strategy \<Rightarrow> agent_group_chat" where
  "AgentGroupChat ags ts ss =
     \<lparr>agents = ags, termination_strategy = ts, selection_strategy = ss,
      history = [], is_complete = False\<rparr>"

text \<open>Lines 111 to 136.\<close>

definition chat :: "Service \<Rightarrow> agent_group_chat" where
  "chat selected =
     AgentGroupChat
       [agent_concierge selected,
        agent_kyrgyzstan_route_expert selected,
        agent_local_traditions_expert selected]
       \<lparr>ts_agents =
          [agent_concierge selected,
           agent_kyrgyzstan_route_expert selected,
           agent_local_traditions_expert selected],
        ts_function = termination_function,
        ts_kernel = create_kernel_with_chat_completion selected ''termination'',
        ts_result_parser = termination_result_parser,
        ts_history_variable_name = ''history'',
        maximum_iterations = 20\<rparr>
       \<lparr>ss_function = selection_function,
        ss_kernel = create_kernel_with_chat_completion selected ''selection'',
        ss_result_parser = selection_result_parser,
        agent_variable_name = ''agents'',
        ss_history_variable_name = ''history''\<rparr>"

text \<open>Modelled from the spec: \<^verbatim>\<open>add_chat_message\<close> is a method of the framework's chat,
  not under src/. The text is appended to the history.\<close>

definition add_chat_message :: "agent_group_chat \<Rightarrow> chat_message_content \<Rightarrow> agent_group_chat" where
  "add_chat_message c m = c\<lparr>history := history c @ [m]\<rparr>"

section \<open>The interactive loop (lines 59 to 148)\<close>

text \<open>
  The world the script acts on: the texts written to standard output, in order, and the
  number of remote completion calls issued so far. Standard input is the list of lines
  still to be read.

  \<^verbatim>\<open>chat.invoke()\<close> is the framework's; the loop takes it as a parameter. Given the chat
  and the number of remote calls so far, it returns the messages it yields, the chat
  afterwards, the number of remote calls afterwards, and the exception that ended it, if
  any. How a role is formatted inside an f-string depends on the Python version, so that is
  a parameter too.
\<close>

record world =
  stdout :: "string list"
  calls :: nat

type_synonym invoke_fn =
  "agent_group_chat \<Rightarrow> nat \<Rightarrow> chat_message_content list \<times> agent_group_chat \<times> nat \<times> py_error option"

definition py_print :: "string \<Rightarrow> world \<Rightarrow> world" where
  "py_print s w = w\<lparr>stdout := stdout w @ [s]\<rparr>"

definition INPUT_PROMPT :: string where
  "INPUT_PROMPT = ''Ask a question or type '' @ QUOTE @ ''exit'' @ QUOTE @ '' to quit: ''"

text \<open>Line 146, one pass of the \<^verbatim>\<open>async for\<close>.\<close>

definition turn_line :: "(author_role \<Rightarrow> string) \<Rightarrow> chat_message_content \<Rightarrow> string" where
  "turn_line role_str c =
     ''# '' @ role_str (role c) @ '' - '' @ py_or (name c) ''*'' @ '': '' @ QUOTE @ content c @ QUOTE"

fun print_turns :: "(author_role \<Rightarrow> string) \<Rightarrow> chat_message_content list \<Rightarrow> world \<Rightarrow> world" where
  "print_turns role_str [] w = w"
| "print_turns role_str (c # cs) w = print_turns role_str cs (py_print (turn_line role_str c) w)"

datatype loop_signal = Break | Continue | Raise py_error

text \<open>Lines 145 to 148: print every yielded message; an exception raised by the framework
  leaves the loop after the messages yielded before it were printed.\<close>

definition run_exchange ::
  "(author_role \<Rightarrow> string) \<Rightarrow> invoke_fn \<Rightarrow> agent_group_chat \<Rightarrow> world \<Rightarrow> world \<times> loop_signal" where
  "run_exchange role_str invoke c w =
     (case invoke c (calls w) of
        (yielded, c', n, err) \<Rightarrow>
          (let w1 = print_turns role_str yielded (w\<lparr>calls := n\<rparr>) in
           case err of
             Some e \<Rightarrow> (w1, Raise e)
           | None \<Rightarrow> (py_print (''# IS COMPLETE: '' @ str_bool (is_complete c')) w1, Continue)))"

text \<open>Lines 61 to 148, one pass of \<^verbatim>\<open>while True\<close>, given the line that \<^verbatim>\<open>input\<close> returns.\<close>

definition loop_body ::
  "Service \<Rightarrow> (author_role \<Rightarrow> string) \<Rightarrow> invoke_fn \<Rightarrow> string \<Rightarrow> world \<Rightarrow> world \<times> loop_signal" where
  "loop_body selected role_str invoke user_input w =
     (let c = chat selected;
          w1 = py_print INPUT_PROMPT w
      in if py_lower user_input = ''exit'' then (w1, Break)
         else
           let c1 = add_chat_message c \<lparr>role = USER, name = None, content = user_input\<rparr>;
               w2 = py_print (''# '' @ role_str USER @ '': '' @ QUOTE @ user_input @ QUOTE) w1
           in run_exchange role_str invoke c1 w2)"

text \<open>\<^verbatim>\<open>main\<close>: at the end of standard input, \<^verbatim>\<open>input\<close> raises \<^verbatim>\<open>EOFError\<close> after writing
  its prompt.\<close>

fun main ::
  "Service \<Rightarrow> (author_role \<Rightarrow> string) \<Rightarrow> invoke_fn \<Rightarrow> string list \<Rightarrow> world \<Rightarrow> world \<times> py_error option" where
  "main selected role_str invoke [] w = (py_print INPUT_PROMPT w, Some EOFError)"
| "main selected role_str invoke (user_input # rest) w =
     (case loop_body selected role_str invoke user_input w of
        (w', Break) \<Rightarrow> (w', None)
      | (w', Raise e) \<Rightarrow> (w', Some e)
      | (w', Continue) \<Rightarrow> main selected role_str invoke rest w')"

section \<open>The bounded exchange of the framework\<close>

text \<open>
  The remote completion service, as the sequence of its answers: what the call number
  \<open>n\<close> returns when it is a selection call, a persona's completion call or a
  termination call. Every sequence of remote responses is some value of this record.
\<close>

record remote_service =
  selection_response :: "nat \<Rightarrow> function_result"
  persona_response :: "nat \<Rightarrow> string"
  termination_response :: "nat \<Rightarrow> function_result"

text \<open>Modelled from the spec: \<^verbatim>\<open>AgentGroupChat.invoke\<close> belongs to the agent framework,
  which is not under src/. One pass follows section 4.1 of the specification: (1) the
  selection response is parsed, by the parser the script supplies, as a persona name; (2) the
  persona of that name answers, and the answer is appended to the history as a turn tagged
  with the persona's name and yielded; (3) the termination response on the updated history is
  parsed by the parser the script supplies; (4) the loop stops when step 3 says stop, or
  after \<^verbatim>\<open>maximum_iterations\<close> passes. A name that no persona bears and an exception of a
  parser end the exchange with an error (``any transport or parsing failure is expected to
  propagate as an unrecoverable error'').\<close>

fun invoke_loop ::
  "remote_service \<Rightarrow> nat \<Rightarrow> agent_group_chat \<Rightarrow> nat \<Rightarrow>
   chat_message_content list \<times> agent_group_chat \<times> nat \<times> py_error option" where
  "invoke_loop r 0 c n = ([], c, n, None)"
| "invoke_loop r (Suc k) c n =
     (let chosen = ss_result_parser (selection_strategy c) (selection_response r n) in
      case find (\<lambda>a. agent_name a = chosen) (agents c) of
        None \<Rightarrow> ([], c, n + 1, Some AgentChatException)
      | Some a \<Rightarrow>
          (let turn = \<lparr>role = ASSISTANT, name = Some (agent_name a),
                       content = persona_response r (n + 1)\<rparr>;
               c1 = c\<lparr>history := history c @ [turn]\<rparr>
           in case ts_result_parser (termination_strategy c) (termination_response r (n + 2)) of
                Inl e \<Rightarrow> ([turn], c1, n + 3, Some e)
              | Inr stop \<Rightarrow>
                  if stop then ([turn], c1\<lparr>is_complete := True\<rparr>, n + 3, None)
                  else (case invoke_loop r k c1 (n + 3) of
                          (yielded, c2, n2, err) \<Rightarrow> (turn # yielded, c2, n2, err))))"

definition invoke :: "remote_service \<Rightarrow> invoke_fn" where
  "invoke r c n = invoke_loop r (maximum_iterations (termination_strategy c)) c n"

section \<open>The wording of the specification, and sample instances\<close>

text \<open>The termination verdict in the specification's words: ``stop'' if and only if the
  response, trimmed and lower-cased, equals \<^verbatim>\<open>yes\<close>.\<close>

definition spec_termination_verdict :: "string \<Rightarrow> bool" where
  "spec_termination_verdict response = (py_lower (py_strip response) = ''yes'')"

text \<open>A prompt function's result that carries one reply with the given text.\<close>

definition reply :: "string \<Rightarrow> function_result" where
  "reply s = FunctionResult (Some [\<lparr>role = ASSISTANT, name = None, content = s\<rparr>])"

text \<open>How Python 3.12 formats a member of \<^verbatim>\<open>AuthorRole\<close> in an f-string.\<close>

fun enum_str :: "author_role \<Rightarrow> string" where
  "enum_str SYSTEM = ''AuthorRole.SYSTEM''"
| "enum_str USER = ''AuthorRole.USER''"
| "enum_str ASSISTANT = ''AuthorRole.ASSISTANT''"
| "enum_str TOOL = ''AuthorRole.TOOL''"

text \<open>A remote service that always names the concierge, lets it greet, and agrees at once;
  and one that never agrees.\<close>

definition agreeing_remote :: remote_service where
  "agreeing_remote =
     \<lparr>selection_response = (\<lambda>n. reply ''Concierge''),
      persona_response = (\<lambda>n. ''Hello!''),
      termination_response = (\<lambda>n. reply ''yes'')\<rparr>"

definition stubborn_remote :: remote_service where
  "stubborn_remote =
     \<lparr>selection_response = (\<lambda>n. reply ''Concierge''),
      persona_response = (\<lambda>n. ''Hello!''),
      termination_response = (\<lambda>n. reply ''no'')\<rparr>"


section \<open>Auxiliary facts\<close>

lemma lower_char_y: "(lower_char c = CHR ''y'') = (c = CHR ''y'' \<or> c = CHR ''Y'')"
  by (auto simp: lower_char_def ascii_uppercase_def ascii_lowercase_def)

lemma lower_char_e: "(lower_char c = CHR ''e'') = (c = CHR ''e'' \<or> c = CHR ''E'')"
  by (auto simp: lower_char_def ascii_uppercase_def ascii_lowercase_def)

lemma lower_char_s: "(lower_char c = CHR ''s'') = (c = CHR ''s'' \<or> c = CHR ''S'')"
  by (auto simp: lower_char_def ascii_uppercase_def ascii_lowercase_def)

text \<open>Exactly eight strings lower-case to \<^verbatim>\<open>yes\<close>.\<close>

lemma py_lower_eq_yes:
  "(py_lower s = ''yes'') =
   (s \<in> set [''yes'', ''yeS'', ''yEs'', ''yES'', ''Yes'', ''YeS'', ''YEs'', ''YES''])"
proof (cases s)
  case Nil
  then show ?thesis by (simp add: py_lower_def)
next
  case s: (Cons a s1)
  show ?thesis
  proof (cases s1)
    case Nil
    with s show ?thesis by (simp add: py_lower_def)
  next
    case s1: (Cons b s2)
    show ?thesis
    proof (cases s2)
      case Nil
      with s s1 show ?thesis by (simp add: py_lower_def)
    next
      case (Cons c s3)
      with s s1 show ?thesis
        by (cases s3) (auto simp: py_lower_def lower_char_y lower_char_e lower_char_s)
    qed
  qed
qed

lemma py_lower_samples:
  "py_lower ''hello'' \<noteq> ''exit''" "py_lower ''thanks'' \<noteq> ''exit''"
  "py_lower ''EXIT'' = ''exit''" "py_lower ''exit'' = ''exit''"
  "py_lower ''yes'' = ''yes''" "py_lower ''no'' \<noteq> ''yes''" "py_lower '' yes'' \<noteq> ''yes''"
  by (simp_all add: py_lower_def lower_char_def ascii_uppercase_def ascii_lowercase_def)

lemma stdout_print_turns:
  "stdout (print_turns rs ys w) = stdout w @ map (turn_line rs) ys"
  by (induction ys arbitrary: w) (simp_all add: py_print_def)

lemma calls_print_turns: "calls (print_turns rs ys w) = calls w"
  by (induction ys arbitrary: w) (simp_all add: py_print_def)

lemma print_turns_world:
  "print_turns rs ys w = w\<lparr>stdout := stdout w @ map (turn_line rs) ys\<rparr>"
  by (induction ys arbitrary: w) (simp_all add: py_print_def)

text \<open>The chat built by the script: its fields.\<close>

lemma chat_fields:
  "history (chat selected) = []"
  "is_complete (chat selected) = False"
  "maximum_iterations (termination_strategy (chat selected)) = 20"
  "ts_result_parser (termination_strategy (chat selected)) = termination_result_parser"
  "ss_result_parser (selection_strategy (chat selected)) = selection_result_parser"
  "agents (chat selected) =
     [agent_concierge selected, agent_kyrgyzstan_route_expert selected,
      agent_local_traditions_expert selected]"
  by (simp_all add: chat_def AgentGroupChat_def)

lemma chat_independent: "chat selected = chat selected'"
  by (simp add: chat_def agent_concierge_def agent_kyrgyzstan_route_expert_def
      agent_local_traditions_expert_def create_kernel_with_chat_completion_def)

lemma add_chat_message_fields:
  "history (add_chat_message c m) = history c @ [m]"
  "is_complete (add_chat_message c m) = is_complete c"
  "agents (add_chat_message c m) = agents c"
  "termination_strategy (add_chat_message c m) = termination_strategy c"
  "selection_strategy (add_chat_message c m) = selection_strategy c"
  by (simp_all add: add_chat_message_def)

text \<open>One pass of the framework's loop per remaining iteration: at most \<open>k\<close> turns are
  yielded, and the history grows by exactly the yielded turns.\<close>

lemma invoke_loop_bound:
  "invoke_loop r k c n = (ys, c', n', e) \<Longrightarrow> length ys \<le> k \<and> history c' = history c @ ys"
proof (induction k arbitrary: c n ys c' n' e)
  case 0
  then show ?case by simp
next
  case (Suc k)
  then show ?case
    by (fastforce simp: Let_def split: option.splits sum.splits if_splits prod.splits)
qed

lemma invoke_bound:
  assumes "invoke r c n = (ys, c', n', e)"
  shows "length ys \<le> maximum_iterations (termination_strategy c) \<and> history c' = history c @ ys"
  using assms invoke_loop_bound unfolding invoke_def by blast

lemma run_exchange_stdout:
  assumes "fw c (calls w) = (ys, c', n, e)"
  shows "stdout (fst (run_exchange rs fw c w)) =
         stdout w @ map (turn_line rs) ys @
         (case e of Some x \<Rightarrow> [] | None \<Rightarrow> [''# IS COMPLETE: '' @ str_bool (is_complete c')])"
  using assms
  by (simp add: run_exchange_def Let_def stdout_print_turns py_print_def split: option.splits)

lemma loop_body_exit:
  "py_lower l = ''exit'' \<Longrightarrow> loop_body sel rs fw l w = (py_print INPUT_PROMPT w, Break)"
  by (simp add: loop_body_def)

lemma loop_body_other:
  "py_lower l \<noteq> ''exit'' \<Longrightarrow>
   loop_body sel rs fw l w =
     run_exchange rs fw
       (add_chat_message (chat sel) \<lparr>role = USER, name = None, content = l\<rparr>)
       (py_print (''# '' @ rs USER @ '': '' @ QUOTE @ l @ QUOTE) (py_print INPUT_PROMPT w))"
  by (simp add: loop_body_def Let_def)

lemma run_exchange_not_break: "snd (run_exchange rs fw c w) \<noteq> Break"
  by (simp add: run_exchange_def Let_def split: prod.splits option.splits)

lemma run_exchange_ok:
  assumes "fw c (calls w) = (ys, c', n, None)"
  shows "run_exchange rs fw c w =
         (\<lparr>stdout = stdout w @ map (turn_line rs) ys @
                     [''# IS COMPLETE: '' @ str_bool (is_complete c')],
           calls = n\<rparr>, Continue)"
  using assms
  by (simp add: run_exchange_def Let_def print_turns_world py_print_def)



lemma loop_body_selected: "loop_body sel rs fw l w = loop_body sel' rs fw l w"
  using chat_independent [of sel sel'] by (simp add: loop_body_def)

lemma main_selected: "main sel rs fw inp w = main sel' rs fw inp w"
proof (induction inp arbitrary: w)
  case Nil
  show ?case by simp
next
  case (Cons l ls)
  then show ?case
    using loop_body_selected [of sel rs fw l w sel']
    by (simp split: prod.splits loop_signal.splits)
qed

text \<open>The two sample services on a chat with the script's strategies and agents.\<close>

lemma agreeing_invoke:
  assumes "agents c = agents (chat sel)"
    and "termination_strategy c = termination_strategy (chat sel)"
    and "selection_strategy c = selection_strategy (chat sel)"
  shows "invoke agreeing_remote c n =
     ([\<lparr>role = ASSISTANT, name = Some ''Concierge'', content = ''Hello!''\<rparr>],
      c\<lparr>history := history c @ [\<lparr>role = ASSISTANT, name = Some ''Concierge'', content = ''Hello!''\<rparr>],
        is_complete := True\<rparr>,
      n + 3, None)"
  using assms
  by (simp add: Let_def invoke_def chat_fields numeral_eq_Suc agreeing_remote_def reply_def
      selection_result_parser_def termination_result_parser_def py_str_def py_lower_samples
      agent_concierge_def CONCIERGE_NAME_def)

lemma stubborn_invoke_loop:
  assumes "agents c = agents (chat sel)"
    and "termination_strategy c = termination_strategy (chat sel)"
    and "selection_strategy c = selection_strategy (chat sel)"
  shows "invoke_loop stubborn_remote k c n =
     (replicate k \<lparr>role = ASSISTANT, name = Some ''Concierge'', content = ''Hello!''\<rparr>,
      c\<lparr>history := history c @
           replicate k \<lparr>role = ASSISTANT, name = Some ''Concierge'', content = ''Hello!''\<rparr>\<rparr>,
      n + 3 * k, None)"
  using assms
proof (induction k arbitrary: c n)
  case 0
  then show ?case by simp
next
  case (Suc k)
  let ?t = "\<lparr>role = ASSISTANT, name = Some ''Concierge'', content = ''Hello!''\<rparr>"
  have step: "invoke_loop stubborn_remote k (c\<lparr>history := history c @ [?t]\<rparr>) (n + 3) =
     (replicate k ?t,
      c\<lparr>history := history c @ [?t]\<rparr>
       \<lparr>history := history (c\<lparr>history := history c @ [?t]\<rparr>) @ replicate k ?t\<rparr>,
      n + 3 + 3 * k, None)"
    using Suc.prems by (intro Suc.IH) simp_all
  have rep: "[?t] @ replicate k ?t = replicate (Suc k) ?t"
    by simp
  show ?case
    using Suc.prems step
    by (simp add: Let_def chat_fields stubborn_remote_def reply_def
        selection_result_parser_def termination_result_parser_def py_str_def py_lower_samples
        agent_concierge_def CONCIERGE_NAME_def replicate_app_Cons_same)
qed

lemma stubborn_invoke:
  assumes "agents c = agents (chat sel)"
    and "termination_strategy c = termination_strategy (chat sel)"
    and "selection_strategy c = selection_strategy (chat sel)"
  shows "invoke stubborn_remote c n =
     (replicate 20 \<lparr>role = ASSISTANT, name = Some ''Concierge'', content = ''Hello!''\<rparr>,
      c\<lparr>history := history c @
           replicate 20 \<lparr>role = ASSISTANT, name = Some ''Concierge'', content = ''Hello!''\<rparr>\<rparr>,
      n + 60, None)"
  using stubborn_invoke_loop [OF assms, of 20 n] assms(2)
  by (simp add: invoke_def chat_fields)

text \<open>\<^verbatim>\<open>main\<close> only ever adds to what has been written.\<close>

lemma main_stdout_prefix: "\<exists>zs. stdout (fst (main sel rs fw inp w)) = stdout w @ zs"
proof (induction inp arbitrary: w)
  case Nil
  show ?case by (simp add: py_print_def)
next
  case (Cons l ls)
  obtain ys c' n e where
    inv: "fw (add_chat_message (chat sel) \<lparr>role = USER, name = None, content = l\<rparr>)
            (calls (py_print (''# '' @ rs USER @ '': '' @ QUOTE @ l @ QUOTE)
               (py_print INPUT_PROMPT w))) = (ys, c', n, e)"
    by (metis prod_cases4)
  show ?case
  proof (cases "py_lower l = ''exit''")
    case True
    then show ?thesis by (simp add: loop_body_exit py_print_def)
  next
    case False
    show ?thesis
    proof (cases e)
      case (Some x)
      with False inv show ?thesis
        by (simp add: loop_body_other run_exchange_def print_turns_world py_print_def)
    next
      case None
      let ?w' = "\<lparr>stdout = stdout (py_print (''# '' @ rs USER @ '': '' @ QUOTE @ l @ QUOTE)
                     (py_print INPUT_PROMPT w)) @ map (turn_line rs) ys @
                     [''# IS COMPLETE: '' @ str_bool (is_complete c')],
                 calls = n\<rparr>"
      from Cons.IH [of ?w'] obtain zs where
        "stdout (fst (main sel rs fw ls ?w')) = stdout ?w' @ zs" ..
      with False inv None show ?thesis
        using run_exchange_ok [where fw = fw and rs = rs, OF inv [unfolded None]]
        by (simp add: loop_body_other py_print_def)
    qed
  qed
qed

section \<open>The claims\<close>

text \<open>
  C1 (as amended). The claim reads the verdict off the trimmed response; the parser of
  line 125 lower-cases and does not trim. For a termination result that carries a reply, the
  verdict is ``stop'' if and only if the reply's text, lower-cased and otherwise untouched,
  equals \<^verbatim>\<open>yes\<close>; that is, if and only if the text is one of the eight spellings of
  \<^verbatim>\<open>yes\<close>. Every other reply means the exchange continues.
\<close>

theorem termination_verdict_lowercase_untrimmed:
  "termination_result_parser (FunctionResult (Some (m # ms))) = Inr (py_lower (content m) = ''yes'')
   \<and> (termination_result_parser (FunctionResult (Some (m # ms))) = Inr True) =
     (content m \<in> set [''yes'', ''yeS'', ''yEs'', ''yES'', ''Yes'', ''YeS'', ''YEs'', ''YES''])"
  using py_lower_eq_yes [of "content m"]
  by (simp add: termination_result_parser_def py_str_def)

text \<open>
  C1, the claim as stated, fails: the reply \<^verbatim>\<open>" yes"\<close>, trimmed and lower-cased, equals
  \<^verbatim>\<open>yes\<close>, so the specification's verdict is ``stop'', yet the parser answers ``continue''.
\<close>

theorem termination_verdict_trimmed_counterexample:
  "spec_termination_verdict '' yes'' \<and> termination_result_parser (reply '' yes'') = Inr False"
  by (simp add: spec_termination_verdict_def py_strip_def is_space_def
      termination_result_parser_def reply_def py_str_def
      py_lower_def lower_char_def ascii_uppercase_def ascii_lowercase_def)

text \<open>
  C2. Whatever the history the exchange starts from and whatever the remote service answers,
  the exchange on the chat the script builds yields at most 20 persona turns, the history
  afterwards is the history before followed by exactly those turns, and the loop of lines
  145 to 148 prints one line for each of them, followed by at most one more line.
\<close>

theorem exchange_at_most_20_turns:
  "case invoke r ((chat selected)\<lparr>history := h\<rparr>) (calls w) of
     (yielded, c', n', err) \<Rightarrow>
       length yielded \<le> 20 \<and> history c' = h @ yielded \<and>
       (\<exists>tail. stdout (fst (run_exchange rs (invoke r) ((chat selected)\<lparr>history := h\<rparr>) w)) =
                 stdout w @ map (turn_line rs) yielded @ tail \<and> length tail \<le> 1)"
proof -
  obtain ys c' n' e where
    inv: "invoke r ((chat selected)\<lparr>history := h\<rparr>) (calls w) = (ys, c', n', e)"
    by (metis prod_cases4)
  have "length ys \<le> 20 \<and> history c' = h @ ys"
    using invoke_bound [OF inv] by (simp add: chat_fields)
  moreover have "\<exists>tail. stdout (fst (run_exchange rs (invoke r) ((chat selected)\<lparr>history := h\<rparr>) w)) =
                   stdout w @ map (turn_line rs) ys @ tail \<and> length tail \<le> 1"
    using run_exchange_stdout [where fw = "invoke r" and w = w and rs = rs, OF inv]
    by (cases e) simp_all
  ultimately show ?thesis
    using inv by simp
qed

theorem exchange_at_most_20_turns_witness:
  "case invoke stubborn_remote
          ((chat AzureOpenAI)\<lparr>history := [\<lparr>role = USER, name = None, content = ''hello''\<rparr>]\<rparr>)
          (calls \<lparr>stdout = [], calls = 0\<rparr>) of
     (yielded, c', n', err) \<Rightarrow>
       length yielded = 20 \<and> length yielded \<le> 20
       \<and> history c' = \<lparr>role = USER, name = None, content = ''hello''\<rparr> # yielded
       \<and> n' = 60 \<and> err = None"
  using exchange_at_most_20_turns [where r = stubborn_remote and selected = AzureOpenAI
      and h = "[\<lparr>role = USER, name = None, content = ''hello''\<rparr>]"
      and w = "\<lparr>stdout = [], calls = 0\<rparr>" and rs = enum_str]
    stubborn_invoke [of "(chat AzureOpenAI)\<lparr>history :=
      [\<lparr>role = USER, name = None, content = ''hello''\<rparr>]\<rparr>" AzureOpenAI 0]
  by simp

text \<open>
  C3 (as amended). When the selection result carries no reply at all (its value is
  \<^verbatim>\<open>None\<close> or the empty list), the parser of line 132 yields the name of the Concierge,
  which is the name of the first of the three agents of the chat.
\<close>

theorem selection_defaults_to_concierge:
  "selection_result_parser (FunctionResult None) = CONCIERGE_NAME
   \<and> selection_result_parser (FunctionResult (Some [])) = CONCIERGE_NAME
   \<and> find (\<lambda>a. agent_name a = CONCIERGE_NAME) (agents (chat selected)) =
       Some (agent_concierge selected)"
  by (simp add: selection_result_parser_def chat_fields agent_concierge_def)

text \<open>
  C3, the claim as stated, fails: a reply whose text is empty, and a reply that names nobody
  among the personas, yield no usable persona name, and the parser hands them on instead of
  the Concierge's name.
\<close>

theorem selection_unusable_name_counterexample:
  "selection_result_parser (reply []) = [] \<and> [] \<noteq> CONCIERGE_NAME
   \<and> selection_result_parser (reply ''Bob'') = ''Bob'' \<and> ''Bob'' \<noteq> CONCIERGE_NAME
   \<and> ''Bob'' \<notin> set (map agent_name (agents (chat AzureOpenAI)))
   \<and> [] \<notin> set (map agent_name (agents (chat AzureOpenAI)))"
  by (simp add: selection_result_parser_def reply_def py_str_def CONCIERGE_NAME_def
      chat_fields agent_concierge_def agent_kyrgyzstan_route_expert_def
      agent_local_traditions_expert_def KYRGYZSTAN_ROUTE_EXPERT_NAME_def
      LOCAL_TRADITIONS_EXPERT_NAME_def)

text \<open>
  C4. When the line read lower-cases to \<^verbatim>\<open>exit\<close>, \<^verbatim>\<open>main\<close> returns without an exception;
  nothing but the prompt of \<^verbatim>\<open>input\<close> has been written, and the number of remote calls is
  what it was. On any other line \<^verbatim>\<open>main\<close> does not return there: it echoes the line and
  runs the exchange on it; it then ends on that line only with the exception the exchange
  raised, and otherwise goes on with the remaining input. So \<^verbatim>\<open>main\<close> ends with just the
  prompt written and no exception exactly when the line is the exit keyword in some letter
  case, and exactly then the pass of the loop breaks out.
\<close>

theorem exit_ends_session:
  "(py_lower l = ''exit'' \<longrightarrow>
      main sel rs fw (l # ls) w = (w\<lparr>stdout := stdout w @ [INPUT_PROMPT]\<rparr>, None)
      \<and> calls (fst (main sel rs fw (l # ls) w)) = calls w)
   \<and> (py_lower l \<noteq> ''exit'' \<longrightarrow>
      main sel rs fw (l # ls) w =
        (case fw (add_chat_message (chat sel) \<lparr>role = USER, name = None, content = l\<rparr>) (calls w) of
           (yielded, c', n, err) \<Rightarrow>
             (case err of
                Some e \<Rightarrow>
                  (\<lparr>stdout = stdout w
                       @ [INPUT_PROMPT, ''# '' @ rs USER @ '': '' @ QUOTE @ l @ QUOTE]
                       @ map (turn_line rs) yielded,
                    calls = n\<rparr>, Some e)
              | None \<Rightarrow>
                  main sel rs fw ls
                    \<lparr>stdout = stdout w
                       @ [INPUT_PROMPT, ''# '' @ rs USER @ '': '' @ QUOTE @ l @ QUOTE]
                       @ map (turn_line rs) yielded
                       @ [''# IS COMPLETE: '' @ str_bool (is_complete c')],
                     calls = n\<rparr>)))
   \<and> (main sel rs fw (l # ls) w = (w\<lparr>stdout := stdout w @ [INPUT_PROMPT]\<rparr>, None)) =
       (py_lower l = ''exit'')
   \<and> (snd (loop_body sel rs fw l w) = Break) = (py_lower l = ''exit'')"
proof (cases "py_lower l = ''exit''")
  case True
  then show ?thesis by (simp add: loop_body_exit py_print_def)
next
  case False
  let ?echo = "''# '' @ rs USER @ '': '' @ QUOTE @ l @ QUOTE"
  let ?w2 = "py_print ?echo (py_print INPUT_PROMPT w)"
  obtain ys c' n e where
    inv: "fw (add_chat_message (chat sel) \<lparr>role = USER, name = None, content = l\<rparr>) (calls w) =
          (ys, c', n, e)"
    by (metis prod_cases4)
  have calls2: "calls ?w2 = calls w"
    by (simp add: py_print_def)
  have pinned: "main sel rs fw (l # ls) w =
        (case e of
           Some x \<Rightarrow>
             (\<lparr>stdout = stdout w @ [INPUT_PROMPT, ?echo] @ map (turn_line rs) ys, calls = n\<rparr>,
              Some x)
         | None \<Rightarrow>
             main sel rs fw ls
               \<lparr>stdout = stdout w @ [INPUT_PROMPT, ?echo] @ map (turn_line rs) ys
                  @ [''# IS COMPLETE: '' @ str_bool (is_complete c')],
                calls = n\<rparr>)"
  proof (cases e)
    case (Some x)
    with False inv show ?thesis
      by (simp add: loop_body_other run_exchange_def print_turns_world py_print_def)
  next
    case None
    from inv None calls2
    have "fw (add_chat_message (chat sel) \<lparr>role = USER, name = None, content = l\<rparr>) (calls ?w2) =
          (ys, c', n, None)"
      by simp
    from run_exchange_ok [where fw = fw and rs = rs, OF this] False None show ?thesis
      by (simp add: loop_body_other py_print_def)
  qed
  have differs: "main sel rs fw (l # ls) w \<noteq> (w\<lparr>stdout := stdout w @ [INPUT_PROMPT]\<rparr>, None)"
  proof (cases e)
    case (Some x)
    with pinned show ?thesis by simp
  next
    case None
    let ?w' = "\<lparr>stdout = stdout w @ [INPUT_PROMPT, ?echo] @ map (turn_line rs) ys
                  @ [''# IS COMPLETE: '' @ str_bool (is_complete c')],
                calls = n\<rparr>"
    obtain zs where "stdout (fst (main sel rs fw ls ?w')) = stdout ?w' @ zs"
      using main_stdout_prefix [of sel rs fw ls ?w'] ..
    then have "stdout (fst (main sel rs fw (l # ls) w)) \<noteq> stdout w @ [INPUT_PROMPT]"
      using pinned None by simp
    then show ?thesis by auto
  qed
  have c1: "py_lower l = ''exit'' \<longrightarrow>
      main sel rs fw (l # ls) w = (w\<lparr>stdout := stdout w @ [INPUT_PROMPT]\<rparr>, None)
      \<and> calls (fst (main sel rs fw (l # ls) w)) = calls w"
    using False by blast
  have c2: "py_lower l \<noteq> ''exit'' \<longrightarrow>
      main sel rs fw (l # ls) w =
        (case fw (add_chat_message (chat sel) \<lparr>role = USER, name = None, content = l\<rparr>) (calls w) of
           (yielded, c', n, err) \<Rightarrow>
             (case err of
                Some e \<Rightarrow>
                  (\<lparr>stdout = stdout w
                       @ [INPUT_PROMPT, ''# '' @ rs USER @ '': '' @ QUOTE @ l @ QUOTE]
                       @ map (turn_line rs) yielded,
                    calls = n\<rparr>, Some e)
              | None \<Rightarrow>
                  main sel rs fw ls
                    \<lparr>stdout = stdout w
                       @ [INPUT_PROMPT, ''# '' @ rs USER @ '': '' @ QUOTE @ l @ QUOTE]
                       @ map (turn_line rs) yielded
                       @ [''# IS COMPLETE: '' @ str_bool (is_complete c')],
                     calls = n\<rparr>))"
    unfolding inv prod.case using pinned by (rule impI)
  have c3: "(main sel rs fw (l # ls) w = (w\<lparr>stdout := stdout w @ [INPUT_PROMPT]\<rparr>, None)) =
       (py_lower l = ''exit'')"
    using differs False by blast
  have c4: "(snd (loop_body sel rs fw l w) = Break) = (py_lower l = ''exit'')"
    using False run_exchange_not_break by (simp add: loop_body_other)
  show ?thesis
    by (intro conjI) (rule c1 c2 c3 c4)+
qed

theorem exit_ends_session_witness:
  "py_lower ''EXIT'' = ''exit'' \<and> py_lower ''hello'' \<noteq> ''exit''
   \<and> main AzureOpenAI enum_str (invoke agreeing_remote) [''EXIT'', ''hello'']
        \<lparr>stdout = [], calls = 0\<rparr> = (\<lparr>stdout = [INPUT_PROMPT], calls = 0\<rparr>, None)
   \<and> main AzureOpenAI enum_str (invoke agreeing_remote) [''hello'', ''EXIT'']
        \<lparr>stdout = [], calls = 0\<rparr> =
       (\<lparr>stdout = [INPUT_PROMPT, ''# AuthorRole.USER: '' @ QUOTE @ ''hello'' @ QUOTE,
                    ''# AuthorRole.ASSISTANT - Concierge: '' @ QUOTE @ ''Hello!'' @ QUOTE,
                    ''# IS COMPLETE: True'', INPUT_PROMPT],
         calls = 3\<rparr>, None)
   \<and> main AzureOpenAI enum_str (invoke agreeing_remote) [''hello'', ''EXIT'']
        \<lparr>stdout = [], calls = 0\<rparr> \<noteq> (\<lparr>stdout = [INPUT_PROMPT], calls = 0\<rparr>, None)
   \<and> snd (loop_body AzureOpenAI enum_str (invoke agreeing_remote) ''hello''
        \<lparr>stdout = [], calls = 0\<rparr>) \<noteq> Break"
proof -
  have ev: "invoke agreeing_remote
     (add_chat_message (chat AzureOpenAI) \<lparr>role = USER, name = None, content = ''hello''\<rparr>) 0 =
   ([\<lparr>role = ASSISTANT, name = Some ''Concierge'', content = ''Hello!''\<rparr>],
    (chat AzureOpenAI)
      \<lparr>history := [\<lparr>role = USER, name = None, content = ''hello''\<rparr>,
                   \<lparr>role = ASSISTANT, name = Some ''Concierge'', content = ''Hello!''\<rparr>],
       is_complete := True\<rparr>,
    3, None)"
    using agreeing_invoke [of "add_chat_message (chat AzureOpenAI)
        \<lparr>role = USER, name = None, content = ''hello''\<rparr>" AzureOpenAI 0]
    by (simp add: add_chat_message_def chat_fields)
  show ?thesis
    using exit_ends_session [of "''EXIT''" AzureOpenAI enum_str "invoke agreeing_remote"
        "[''hello'']" "\<lparr>stdout = [], calls = 0\<rparr>"]
      exit_ends_session [of "''hello''" AzureOpenAI enum_str "invoke agreeing_remote"
        "[''EXIT'']" "\<lparr>stdout = [], calls = 0\<rparr>"]
      exit_ends_session [of "''EXIT''" AzureOpenAI enum_str "invoke agreeing_remote" "[]"
        "\<lparr>stdout = [INPUT_PROMPT, ''# AuthorRole.USER: '' @ QUOTE @ ''hello'' @ QUOTE,
                    ''# AuthorRole.ASSISTANT - Concierge: '' @ QUOTE @ ''Hello!'' @ QUOTE,
                    ''# IS COMPLETE: True''], calls = 3\<rparr>"]
      ev
    by (simp add: py_lower_samples turn_line_def py_or_def str_bool_def)
qed

text \<open>
  C5. For a line that is not the exit keyword, the exchange runs on the chat to which the
  line has been added as a turn of role \<^verbatim>\<open>USER\<close>: that turn is the whole history of the
  chat when the exchange begins, and by then the prompt and the echo of the line have been
  written.
\<close>

theorem user_turn_appended_before_exchange:
  "py_lower l \<noteq> ''exit'' \<Longrightarrow>
   history (add_chat_message (chat sel) \<lparr>role = USER, name = None, content = l\<rparr>) =
     [\<lparr>role = USER, name = None, content = l\<rparr>]
   \<and> loop_body sel rs fw l w =
       run_exchange rs fw
         (add_chat_message (chat sel) \<lparr>role = USER, name = None, content = l\<rparr>)
         (w\<lparr>stdout := stdout w @ [INPUT_PROMPT, ''# '' @ rs USER @ '': '' @ QUOTE @ l @ QUOTE]\<rparr>)"
  by (simp add: loop_body_other add_chat_message_fields chat_fields py_print_def)

theorem user_turn_appended_before_exchange_witness:
  "py_lower ''hello'' \<noteq> ''exit''
   \<and> history (add_chat_message (chat AzureOpenAI) \<lparr>role = USER, name = None, content = ''hello''\<rparr>) =
       [\<lparr>role = USER, name = None, content = ''hello''\<rparr>]
   \<and> loop_body AzureOpenAI enum_str (invoke agreeing_remote) ''hello'' \<lparr>stdout = [], calls = 0\<rparr> =
       run_exchange enum_str (invoke agreeing_remote)
         (add_chat_message (chat AzureOpenAI) \<lparr>role = USER, name = None, content = ''hello''\<rparr>)
         \<lparr>stdout = [INPUT_PROMPT, ''# AuthorRole.USER: '' @ QUOTE @ ''hello'' @ QUOTE], calls = 0\<rparr>"
  using user_turn_appended_before_exchange [of "''hello''" AzureOpenAI enum_str
      "invoke agreeing_remote" "\<lparr>stdout = [], calls = 0\<rparr>"]
  by (simp add: py_lower_samples)

text \<open>
  C6. Every message the exchange yields is printed, in the order yielded, as
  \<^verbatim>\<open># <role> - <name>: '<content>'\<close>, where \<^verbatim>\<open>*\<close> stands for the name when the message has
  none (or an empty one). At most one line follows them.
\<close>

theorem turns_printed_in_format:
  "fw c (calls w) = (yielded, c', n, err) \<Longrightarrow>
   \<exists>tail. length tail \<le> 1 \<and>
     stdout (fst (run_exchange rs fw c w)) =
       stdout w @
       map (\<lambda>m. ''# '' @ rs (role m) @ '' - ''
                 @ (case name m of None \<Rightarrow> ''*'' | Some s \<Rightarrow> if s = [] then ''*'' else s)
                 @ '': '' @ [CHR 0x27] @ content m @ [CHR 0x27]) yielded
       @ tail"
proof -
  assume inv: "fw c (calls w) = (yielded, c', n, err)"
  have fmt: "turn_line rs =
      (\<lambda>m. ''# '' @ rs (role m) @ '' - ''
            @ (case name m of None \<Rightarrow> ''*'' | Some s \<Rightarrow> if s = [] then ''*'' else s)
            @ '': '' @ [CHR 0x27] @ content m @ [CHR 0x27])"
    by (rule ext) (simp add: turn_line_def py_or_def QUOTE_def)
  show ?thesis
    using run_exchange_stdout [where fw = fw and w = w and rs = rs, OF inv]
    unfolding fmt by (cases err) simp_all
qed

theorem turns_printed_in_format_witness:
  "invoke agreeing_remote
     (add_chat_message (chat AzureOpenAI) \<lparr>role = USER, name = None, content = ''hello''\<rparr>)
     (calls \<lparr>stdout = [], calls = 0\<rparr>) =
   ([\<lparr>role = ASSISTANT, name = Some ''Concierge'', content = ''Hello!''\<rparr>],
    (chat AzureOpenAI)
      \<lparr>history := [\<lparr>role = USER, name = None, content = ''hello''\<rparr>,
                   \<lparr>role = ASSISTANT, name = Some ''Concierge'', content = ''Hello!''\<rparr>],
       is_complete := True\<rparr>,
    3, None)
   \<and> (\<exists>tail. length tail \<le> 1 \<and>
        stdout (fst (run_exchange enum_str (invoke agreeing_remote)
          (add_chat_message (chat AzureOpenAI) \<lparr>role = USER, name = None, content = ''hello''\<rparr>)
          \<lparr>stdout = [], calls = 0\<rparr>)) =
        [''# AuthorRole.ASSISTANT - Concierge: '' @ [CHR 0x27] @ ''Hello!'' @ [CHR 0x27]] @ tail)"
proof -
  have ev: "invoke agreeing_remote
     (add_chat_message (chat AzureOpenAI) \<lparr>role = USER, name = None, content = ''hello''\<rparr>)
     (calls \<lparr>stdout = [], calls = 0\<rparr>) =
   ([\<lparr>role = ASSISTANT, name = Some ''Concierge'', content = ''Hello!''\<rparr>],
    (chat AzureOpenAI)
      \<lparr>history := [\<lparr>role = USER, name = None, content = ''hello''\<rparr>,
                   \<lparr>role = ASSISTANT, name = Some ''Concierge'', content = ''Hello!''\<rparr>],
       is_complete := True\<rparr>,
    3, None)"
    using agreeing_invoke [of "add_chat_message (chat AzureOpenAI)
        \<lparr>role = USER, name = None, content = ''hello''\<rparr>" AzureOpenAI 0]
    by (simp add: add_chat_message_def chat_fields)
  show ?thesis
    using turns_printed_in_format [where fw = "invoke agreeing_remote" and rs = enum_str, OF ev] ev
    by simp
qed





text \<open>
  C9. Whatever service the configuration selects, the kernel built for a service id holds
  exactly one service, the Azure chat completion of that id; and \<^verbatim>\<open>main\<close> runs the same
  under any two selections.
\<close>

theorem backend_choice_unused:
  "create_kernel_with_chat_completion selected sid = Kernel [AzureChatCompletion sid]
   \<and> chat selected = chat selected'
   \<and> main selected rs fw inp w = main selected' rs fw inp w"
  using chat_independent [of selected selected'] main_selected [of selected rs fw inp w selected']
  by (simp add: create_kernel_with_chat_completion_def add_service_def)

text \<open>
  C10. When the selection result carries a reply, the parser of line 132 returns the text of
  the first reply as it is: not trimmed, not case-folded, not checked against the names of
  the personas.
\<close>

theorem selection_reply_passed_through:
  "selection_result_parser (FunctionResult (Some (m # ms))) = content m
   \<and> selection_result_parser (reply s) = s"
  by (simp add: selection_result_parser_def reply_def py_str_def)

end
